theory Spec2Isabelle
  imports Main "HOL-Library.Word"
begin

section \<open>JavaScript values used by the edge server\<close>

text \<open>
  A JavaScript number as the code meets it: an integer (timestamps, byte offsets, what
  \<open>parseInt\<close> returns) or \<open>NaN\<close>. Integers are exact here; the source's doubles
  agree with them below \<open>2^53\<close>.
\<close>

datatype jsnum = Num int | NaN

text \<open>Comparison and arithmetic: every comparison with \<open>NaN\<close> is false, every sum is \<open>NaN\<close>.\<close>

fun js_gt :: "jsnum \<Rightarrow> jsnum \<Rightarrow> bool" where
  "js_gt (Num a) (Num b) = (a > b)"
| "js_gt _ _ = False"

fun js_le :: "jsnum \<Rightarrow> jsnum \<Rightarrow> bool" where
  "js_le (Num a) (Num b) = (a \<le> b)"
| "js_le _ _ = False"

fun js_add :: "jsnum \<Rightarrow> jsnum \<Rightarrow> jsnum" where
  "js_add (Num a) (Num b) = Num (a + b)"
| "js_add _ _ = NaN"

fun js_sub :: "jsnum \<Rightarrow> jsnum \<Rightarrow> jsnum" where
  "js_sub (Num a) (Num b) = Num (a - b)"
| "js_sub _ _ = NaN"

text \<open>Decimal digits, and the string form of a number inside a template literal.\<close>

definition digit_char :: "nat \<Rightarrow> char" where
  "digit_char d = ''0123456789'' ! d"

definition is_digit :: "char \<Rightarrow> bool" where
  "is_digit c = (c \<in> set ''0123456789'')"

definition digit_val :: "char \<Rightarrow> nat" where
  "digit_val c = of_char c - 48"

fun show_nat :: "nat \<Rightarrow> string" where
  "show_nat n = (if n < 10 then [digit_char n] else show_nat (n div 10) @ [digit_char (n mod 10)])"

definition show_int :: "int \<Rightarrow> string" where
  "show_int i = (if i < 0 then CHR ''-'' # show_nat (nat (- i)) else show_nat (nat i))"

fun num_to_string :: "jsnum \<Rightarrow> string" where
  "num_to_string (Num i) = show_int i"
| "num_to_string NaN = ''NaN''"

text \<open>
  \<open>parseInt\<close>: leading white space is skipped, one sign is read, then the longest run of
  digits; no digit at all gives \<open>NaN\<close>. Called without a radix (as the route does for
  \<open>expires\<close>) a \<open>0x\<close> prefix selects base 16; \<open>parseInt(s, 10)\<close> reads base 10 only.
\<close>

definition js_whitespace :: "char \<Rightarrow> bool" where
  "js_whitespace c = (of_char c \<in> {9, 10, 11, 12, 13, 32, 160 :: nat})"

definition is_hex_digit :: "char \<Rightarrow> bool" where
  "is_hex_digit c = (c \<in> set ''0123456789abcdefABCDEF'')"

definition hex_val :: "char \<Rightarrow> nat" where
  "hex_val c = (if is_digit c then of_char c - 48
                else if c \<in> set ''abcdef'' then of_char c - 87
                else of_char c - 55)"

definition parse_digits :: "string \<Rightarrow> nat" where
  "parse_digits ds = foldl (\<lambda>acc c. acc * 10 + digit_val c) 0 ds"

definition parse_hex_digits :: "string \<Rightarrow> nat" where
  "parse_hex_digits ds = foldl (\<lambda>acc c. acc * 16 + hex_val c) 0 ds"

fun strip_sign :: "string \<Rightarrow> bool \<times> string" where
  "strip_sign [] = (False, [])"
| "strip_sign (c # r) =
     (if c = CHR ''-'' then (True, r) else if c = CHR ''+'' then (False, r) else (False, c # r))"

definition signed :: "bool \<Rightarrow> nat \<Rightarrow> jsnum" where
  "signed neg n = Num (if neg then - int n else int n)"

definition parseInt10 :: "string \<Rightarrow> jsnum" where
  "parseInt10 s =
     (let (neg, u) = strip_sign (dropWhile js_whitespace s);
          ds = takeWhile is_digit u
      in if ds = [] then NaN else signed neg (parse_digits ds))"

definition parseInt :: "string \<Rightarrow> jsnum" where
  "parseInt s =
     (let (neg, u) = strip_sign (dropWhile js_whitespace s)
      in if take 2 u = ''0x'' \<or> take 2 u = ''0X''
         then (let hs = takeWhile is_hex_digit (drop 2 u)
               in if hs = [] then NaN else signed neg (parse_hex_digits hs))
         else (let ds = takeWhile is_digit u
               in if ds = [] then NaN else signed neg (parse_digits ds)))"

text \<open>Truthiness of a value that is a string or \<open>undefined\<close>: only a non-empty string is truthy.\<close>

fun truthy :: "string option \<Rightarrow> bool" where
  "truthy None = False"
| "truthy (Some s) = (s \<noteq> [])"

section \<open>Configuration\<close>

text \<open>The fields of \<open>config\<close> (src/shared/config.js) that the edge server reads.\<close>

record config =
  jwtSecret :: string
  cache_maxSize :: nat
  cache_ttl :: nat
  memoryEnabled :: bool
  compression_gzip :: bool
  compression_brotli :: bool
  originUrl :: string

type_synonym buffer = "8 word list"

section \<open>Signed URLs (src/shared/crypto.js)\<close>

text \<open>
  \<open>crypto.createHmac('sha256', key).update(data).digest('hex')\<close> is Node's library, not
  code of the repository: it is the parameter \<open>hmac\<close> (key first, then data) of the two
  functions below. \<open>now\<close> is \<open>Math.floor(Date.now() / 1000)\<close>. A caller that leaves
  \<open>expiresIn\<close> out passes \<open>config.security.signedUrlExpiry\<close>.
\<close>

type_synonym hmac_hex = "string \<Rightarrow> string \<Rightarrow> string"

definition signing_data :: "string \<Rightarrow> jsnum \<Rightarrow> string" where
  "signing_data fileId expires = fileId @ '':'' @ num_to_string expires"



definition verifySignedUrl :: "hmac_hex \<Rightarrow> config \<Rightarrow> int \<Rightarrow> string \<Rightarrow> jsnum \<Rightarrow> string \<Rightarrow> bool" where
  "verifySignedUrl hmac cfg now fileId expires signature =
     (if js_gt (Num now) expires then False
      else (let data = signing_data fileId expires;
                expectedSignature = hmac (jwtSecret cfg) data
            in signature = expectedSignature))"


section \<open>The cache store (src/edge/cache.js)\<close>

record metadata =
  contentType :: "string option"
  etag :: "string option"
  lastModified :: "string option"
  contentLength :: "string option"
  cacheControl :: string

record cache_entry =
  content :: buffer
  metadata :: metadata

text \<open>
  Modelled from the spec: the class \<open>LRUCache\<close> of the package \<open>lru-cache\<close>, which
  cache.js instantiates and which is not part of the repository. The store is an ordered
  mapping bounded by \<open>max\<close> entries, most recently used first; each entry carries the
  time it was inserted or last refreshed, and is past its TTL once the clock exceeds that
  time plus \<open>ttl\<close>. \<open>get\<close> returns an entry that is present and not expired, moves it to
  the front and (\<open>updateAgeOnGet: true\<close>) restarts its age; an expired entry is treated
  as absent and dropped. \<open>set\<close> inserts or overwrites at the front and, when a new key
  arrives at capacity, first evicts the entry at the back. \<open>delete\<close> and \<open>clear\<close> remove
  one entry or all.
\<close>

record lru_cache =
  lru_max :: nat
  lru_ttl :: nat
  lru_items :: "(string \<times> cache_entry \<times> nat) list"

definition lru_new :: "nat \<Rightarrow> nat \<Rightarrow> lru_cache" where
  "lru_new m t = \<lparr> lru_max = m, lru_ttl = t, lru_items = [] \<rparr>"

definition lru_keys :: "lru_cache \<Rightarrow> string list" where
  "lru_keys c = map fst (lru_items c)"

definition lru_size :: "lru_cache \<Rightarrow> nat" where
  "lru_size c = length (lru_items c)"

definition lru_remove :: "string \<Rightarrow> (string \<times> cache_entry \<times> nat) list \<Rightarrow> (string \<times> cache_entry \<times> nat) list" where
  "lru_remove k xs = filter (\<lambda>x. fst x \<noteq> k) xs"

definition lru_stale :: "lru_cache \<Rightarrow> nat \<Rightarrow> nat \<Rightarrow> bool" where
  "lru_stale c now start = (now > start + lru_ttl c)"

text \<open>
  Modelled from the spec: \<open>get(key)\<close> of the absent class. It returns the entry if present
  and not expired, and refreshes its recency position and its age.
\<close>

definition lru_get :: "lru_cache \<Rightarrow> string \<Rightarrow> nat \<Rightarrow> cache_entry option \<times> lru_cache" where
  "lru_get c k now =
     (case map_of (lru_items c) k of
        None \<Rightarrow> (None, c)
      | Some (v, start) \<Rightarrow>
          if lru_stale c now start
          then (None, c\<lparr> lru_items := lru_remove k (lru_items c) \<rparr>)
          else (Some v, c\<lparr> lru_items := (k, v, now) # lru_remove k (lru_items c) \<rparr>))"

text \<open>
  Modelled from the spec: \<open>set(key, entry)\<close> of the absent class. It inserts or overwrites;
  if at capacity, it evicts the least recently used entry before inserting.
\<close>

definition lru_set :: "lru_cache \<Rightarrow> string \<Rightarrow> cache_entry \<Rightarrow> nat \<Rightarrow> lru_cache" where
  "lru_set c k v now =
     (if k \<in> set (lru_keys c)
      then c\<lparr> lru_items := (k, v, now) # lru_remove k (lru_items c) \<rparr>
      else if lru_size c \<ge> lru_max c
      then c\<lparr> lru_items := (k, v, now) # butlast (lru_items c) \<rparr>
      else c\<lparr> lru_items := (k, v, now) # lru_items c \<rparr>)"

text \<open>
  Modelled from the spec: \<open>delete(key)\<close> and \<open>clear()\<close> of the absent class remove one entry
  or all; deleting an absent key changes nothing.
\<close>

definition lru_delete :: "lru_cache \<Rightarrow> string \<Rightarrow> lru_cache" where
  "lru_delete c k = c\<lparr> lru_items := lru_remove k (lru_items c) \<rparr>"

definition lru_clear :: "lru_cache \<Rightarrow> lru_cache" where
  "lru_clear c = c\<lparr> lru_items := [] \<rparr>"

text \<open>
  The module's variable \<open>memoryCache\<close> is \<open>null\<close> (\<open>None\<close>) until \<open>initCache\<close> runs
  with the memory cache enabled. Every function takes it and returns it updated; the
  clock of the store is an argument.
\<close>

type_synonym memoryCache = "lru_cache option"

definition initCache :: "config \<Rightarrow> memoryCache \<Rightarrow> memoryCache" where
  "initCache cfg mc =
     (if memoryEnabled cfg then Some (lru_new (cache_maxSize cfg) (cache_ttl cfg)) else mc)"

definition getFromCache :: "memoryCache \<Rightarrow> string \<Rightarrow> nat \<Rightarrow> cache_entry option \<times> memoryCache" where
  "getFromCache mc key now =
     (case mc of
        None \<Rightarrow> (None, None)
      | Some c \<Rightarrow> (let (r, c') = lru_get c key now in (r, Some c')))"

definition setInCache :: "memoryCache \<Rightarrow> string \<Rightarrow> cache_entry \<Rightarrow> nat \<Rightarrow> memoryCache" where
  "setInCache mc key val now =
     (case mc of None \<Rightarrow> None | Some c \<Rightarrow> Some (lru_set c key val now))"

definition deleteFromCache :: "memoryCache \<Rightarrow> string \<Rightarrow> memoryCache" where
  "deleteFromCache mc key = (case mc of None \<Rightarrow> None | Some c \<Rightarrow> Some (lru_delete c key))"

definition clearCache :: "memoryCache \<Rightarrow> memoryCache" where
  "clearCache mc = (case mc of None \<Rightarrow> None | Some c \<Rightarrow> Some (lru_clear c))"

text \<open>A caller that leaves \<open>version\<close> out passes 1, the default of the parameter.\<close>

definition generateCacheKey :: "string \<Rightarrow> nat \<Rightarrow> string" where
  "generateCacheKey filename version = filename @ '':v'' @ show_nat version"






definition live_keys :: "memoryCache \<Rightarrow> string set" where
  "live_keys mc = (case mc of None \<Rightarrow> {} | Some c \<Rightarrow> set (lru_keys c))"

definition cache_size :: "memoryCache \<Rightarrow> nat" where
  "cache_size mc = (case mc of None \<Rightarrow> 0 | Some c \<Rightarrow> lru_size c)"


section \<open>Strings and buffers\<close>

definition starts_with :: "string \<Rightarrow> string \<Rightarrow> bool" where
  "starts_with s p = (take (length p) s = p)"

fun js_includes :: "string \<Rightarrow> string \<Rightarrow> bool" where
  "js_includes [] t = (t = [])"
| "js_includes (c # s) t = (starts_with (c # s) t \<or> js_includes s t)"

text \<open>\<open>s.replace(/pat/, rep)\<close> for a literal pattern: the first occurrence only.\<close>

fun replace_first :: "string \<Rightarrow> string \<Rightarrow> string \<Rightarrow> string" where
  "replace_first pat rep [] = (if pat = [] then rep else [])"
| "replace_first pat rep (c # s) =
     (if starts_with (c # s) pat then rep @ drop (length pat) (c # s)
      else c # replace_first pat rep s)"

text \<open>\<open>s.split(d)\<close> for a one-character separator; the result is never empty.\<close>

fun split_on :: "char \<Rightarrow> string \<Rightarrow> string list" where
  "split_on d [] = [[]]"
| "split_on d (c # s) =
     (if c = d then [] # split_on d s
      else (case split_on d s of [] \<Rightarrow> [[c]] | p # ps \<Rightarrow> (c # p) # ps))"

text \<open>
  \<open>Buffer.prototype.slice(start, end)\<close> of Node: an offset that is \<open>NaN\<close> counts as 0, a
  negative one counts from the end, and both are cut to the buffer.
\<close>

fun adjustOffset :: "jsnum \<Rightarrow> nat \<Rightarrow> nat" where
  "adjustOffset NaN len = 0"
| "adjustOffset (Num i) len =
     (if i < 0 then (if i + int len > 0 then nat (i + int len) else 0)
      else if i < int len then nat i else len)"

definition buffer_slice :: "buffer \<Rightarrow> jsnum \<Rightarrow> jsnum \<Rightarrow> buffer" where
  "buffer_slice b start endb =
     (let s = adjustOffset start (length b); e = adjustOffset endb (length b)
      in if e > s then take (e - s) (drop s b) else [])"

section \<open>Replies\<close>

datatype js_error = TypeError

datatype payload = NoPayload | Bytes buffer | JsonError string

record reply =
  status :: nat
  hdrs :: "(string \<times> string) list"
  payload :: payload

definition new_reply :: reply where
  "new_reply = \<lparr> status = 200, hdrs = [], payload = NoPayload \<rparr>"

fun put_header :: "string \<Rightarrow> string \<Rightarrow> (string \<times> string) list \<Rightarrow> (string \<times> string) list" where
  "put_header n v [] = [(n, v)]"
| "put_header n v ((n', v') # hs) =
     (if n' = n then (n, v) # hs else (n', v') # put_header n v hs)"

text \<open>\<open>reply.header(name, value)\<close>, \<open>reply.code(n)\<close>, \<open>reply.send(payload)\<close>.\<close>

definition header :: "string \<Rightarrow> string \<Rightarrow> reply \<Rightarrow> reply" where
  "header n v r = r\<lparr> hdrs := put_header n v (hdrs r) \<rparr>"

definition code :: "nat \<Rightarrow> reply \<Rightarrow> reply" where
  "code n r = r\<lparr> status := n \<rparr>"

definition send :: "payload \<Rightarrow> reply \<Rightarrow> reply" where
  "send p r = r\<lparr> payload := p \<rparr>"

definition get_header :: "reply \<Rightarrow> string \<Rightarrow> string option" where
  "get_header r n = map_of (hdrs r) n"

section \<open>The runtime outside the repository\<close>

text \<open>
  What the route takes from Node and its packages, as parameters: the HMAC, \<open>new
  Date(s).getTime()\<close> (\<open>NaN\<close> for a string that is no date), the two compressors of
  \<open>zlib\<close>, and \<open>axios.get\<close>, which answers with a status, lower-case headers and a body,
  or not at all (\<open>None\<close>: network error or time-out). The body of the metadata request
  is a JSON value, of which the route reads whether it is truthy and its property \<open>id\<close>.
\<close>

datatype meta_json = JFalsy | JObject "string option"

record runtime =
  hmac_sha256_hex :: hmac_hex
  date_getTime :: "string \<Rightarrow> jsnum"
  brotliCompress :: "buffer \<Rightarrow> buffer"
  gzip :: "buffer \<Rightarrow> buffer"
  axios_get_json :: "string \<Rightarrow> (nat \<times> meta_json) option"
  axios_get_buffer :: "string \<Rightarrow> (nat \<times> (string \<Rightarrow> string option) \<times> buffer) option"

section \<open>Serving an entry (src/edge/routes/cdn.js, serveContent)\<close>

record request_headers =
  if_none_match :: "string option"
  if_modified_since :: "string option"
  h_range :: "string option"
  accept_encoding :: "string option"

record request =
  file_id :: string
  q_expires :: "string option"
  q_signature :: "string option"
  req_headers :: request_headers

definition compressibleTypes :: "string list" where
  "compressibleTypes = [''text/'', ''application/javascript'', ''application/json'',
     ''application/xml'', ''application/x-javascript'', ''image/svg+xml'']"

text \<open>\<open>contentType.startsWith\<close> throws a \<open>TypeError\<close> when the content type is \<open>undefined\<close>.\<close>

definition isCompressibleType :: "string option \<Rightarrow> js_error + bool" where
  "isCompressibleType ct =
     (case ct of
        None \<Rightarrow> Inl TypeError
      | Some t \<Rightarrow> Inr (list_ex (\<lambda>type. starts_with t type) compressibleTypes))"

text \<open>Lines 107 to 117: the headers set on every reply (\<open>undefined\<close> is sent as the empty string).\<close>

definition caching_headers :: "metadata \<Rightarrow> reply \<Rightarrow> reply" where
  "caching_headers md r0 =
     (let r1 = header ''Content-Type'' (case contentType md of Some t \<Rightarrow> t | None \<Rightarrow> []) r0;
          r2 = header ''Cache-Control'' (cacheControl md) r1;
          r3 = header ''X-Cache'' ''HIT'' r2;
          r4 = (case etag md of Some t \<Rightarrow> if t \<noteq> [] then header ''ETag'' t r3 else r3 | None \<Rightarrow> r3)
      in (case lastModified md of
            Some t \<Rightarrow> if t \<noteq> [] then header ''Last-Modified'' t r4 else r4
          | None \<Rightarrow> r4))"

text \<open>Lines 120 to 133: the two conditional checks, either of which answers 304.\<close>

definition etag_matches :: "metadata \<Rightarrow> request_headers \<Rightarrow> bool" where
  "etag_matches md h =
     (truthy (if_none_match h) \<and> truthy (etag md) \<and> if_none_match h = etag md)"

definition not_modified_since :: "runtime \<Rightarrow> metadata \<Rightarrow> request_headers \<Rightarrow> bool" where
  "not_modified_since rt md h =
     (case (if_modified_since h, lastModified md) of
        (Some ims, Some lm) \<Rightarrow>
          ims \<noteq> [] \<and> lm \<noteq> [] \<and>
          (let modifiedSince = date_getTime rt ims; lastMod = date_getTime rt lm
           in js_le lastMod modifiedSince)
      | _ \<Rightarrow> False)"

text \<open>Lines 138 to 148: a range request.\<close>

definition serve_range :: "buffer \<Rightarrow> string \<Rightarrow> reply \<Rightarrow> reply" where
  "serve_range body rng r =
     (let parts = split_on CHR ''-'' (replace_first ''bytes='' [] rng);
          start = (case parts of [] \<Rightarrow> NaN | p0 # _ \<Rightarrow> parseInt10 p0);
          endb = (case parts of
                    _ # p1 # _ \<Rightarrow> if p1 \<noteq> [] then parseInt10 p1 else Num (int (length body) - 1)
                  | _ \<Rightarrow> Num (int (length body) - 1));
          chunkSize = js_add (js_sub endb start) (Num 1);
          r1 = header ''Content-Range''
                 (''bytes '' @ num_to_string start @ ''-'' @ num_to_string endb @ ''/''
                  @ show_nat (length body)) r;
          r2 = header ''Accept-Ranges'' ''bytes'' r1;
          r3 = header ''Content-Length'' (num_to_string chunkSize) r2;
          r4 = code 206 r3
      in send (Bytes (buffer_slice body start (js_add endb (Num 1)))) r4)"

text \<open>Lines 152 to 172: the whole entity, compressed when the type and the client allow it.\<close>

definition serve_full :: "runtime \<Rightarrow> config \<Rightarrow> cache_entry \<Rightarrow> request_headers \<Rightarrow> reply \<Rightarrow> js_error + reply" where
  "serve_full rt cfg entry h r =
     (let acceptEncoding = (case accept_encoding h of Some s \<Rightarrow> s | None \<Rightarrow> [])
      in case isCompressibleType (contentType (metadata entry)) of
           Inl err \<Rightarrow> Inl err
         | Inr isCompressible \<Rightarrow>
             if isCompressible \<and> compression_brotli cfg \<and> js_includes acceptEncoding ''br''
             then (let compressed = brotliCompress rt (content entry);
                       r1 = header ''Content-Encoding'' ''br'' r;
                       r2 = header ''Content-Length'' (show_nat (length compressed)) r1;
                       r3 = header ''Vary'' ''Accept-Encoding'' r2
                   in Inr (send (Bytes compressed) r3))
             else if isCompressible \<and> compression_gzip cfg \<and> js_includes acceptEncoding ''gzip''
             then (let compressed = gzip rt (content entry);
                       r1 = header ''Content-Encoding'' ''gzip'' r;
                       r2 = header ''Content-Length'' (show_nat (length compressed)) r1;
                       r3 = header ''Vary'' ''Accept-Encoding'' r2
                   in Inr (send (Bytes compressed) r3))
             else Inr (send (Bytes (content entry))
                         (header ''Content-Length'' (show_nat (length (content entry))) r)))"

definition serveContent :: "runtime \<Rightarrow> config \<Rightarrow> cache_entry \<Rightarrow> request_headers \<Rightarrow> js_error + reply" where
  "serveContent rt cfg cacheEntry h =
     (let r = caching_headers (metadata cacheEntry) new_reply
      in if etag_matches (metadata cacheEntry) h then Inr (send NoPayload (code 304 r))
         else if not_modified_since rt (metadata cacheEntry) h then Inr (send NoPayload (code 304 r))
         else (case h_range h of
                 Some rng \<Rightarrow>
                   if rng \<noteq> [] then Inr (serve_range (content cacheEntry) rng r)
                   else serve_full rt cfg cacheEntry h r
               | None \<Rightarrow> serve_full rt cfg cacheEntry h r))"

text \<open>
  A request that serveContent answers with the whole entity: neither conditional check
  answers 304 and there is no range.
\<close>

definition full_entity :: "runtime \<Rightarrow> cache_entry \<Rightarrow> request_headers \<Rightarrow> bool" where
  "full_entity rt entry h =
     (\<not> etag_matches (metadata entry) h \<and> \<not> not_modified_since rt (metadata entry) h \<and>
      \<not> truthy (h_range h))"

section \<open>The route GET /cdn/:file_id (src/edge/routes/cdn.js)\<close>

definition json_error :: "nat \<Rightarrow> string \<Rightarrow> reply" where
  "json_error n msg = send (JsonError msg) (code n new_reply)"

text \<open>Lines 22 to 29: the signature is checked only when both query parameters are truthy.\<close>

definition signature_rejected :: "runtime \<Rightarrow> config \<Rightarrow> int \<Rightarrow> request \<Rightarrow> bool" where
  "signature_rejected rt cfg now rq =
     (case (q_expires rq, q_signature rq) of
        (Some expires, Some signature) \<Rightarrow>
          expires \<noteq> [] \<and> signature \<noteq> [] \<and>
          \<not> verifySignedUrl (hmac_sha256_hex rt) cfg now (file_id rq) (parseInt expires) signature
      | _ \<Rightarrow> False)"

text \<open>Lines 61 to 92: the download from the origin, the store and the reply.\<close>

definition entry_of_response :: "(string \<Rightarrow> string option) \<Rightarrow> buffer \<Rightarrow> cache_entry" where
  "entry_of_response hs data =
     \<lparr> content = data,
       metadata = \<lparr> contentType = hs ''content-type'', etag = hs ''etag'',
                    lastModified = hs ''last-modified'', contentLength = hs ''content-length'',
                    cacheControl = (if truthy (hs ''cache-control'')
                                    then (case hs ''cache-control'' of Some s \<Rightarrow> s | None \<Rightarrow> [])
                                    else ''public, max-age=31536000'') \<rparr> \<rparr>"

definition download :: "runtime \<Rightarrow> config \<Rightarrow> memoryCache \<Rightarrow> nat \<Rightarrow> string \<Rightarrow> request \<Rightarrow> string
    \<Rightarrow> (js_error + reply) \<times> memoryCache" where
  "download rt cfg mc tick cacheKey rq downloadUrl =
     (case axios_get_buffer rt downloadUrl of
        None \<Rightarrow> (Inr (json_error 502 ''Failed to fetch from origin''), mc)
      | Some (st, hs, data) \<Rightarrow>
          if st = 200 \<or> st = 304
          then (if st = 304 then (Inr (send NoPayload (code 304 new_reply)), mc)
                else (let cacheEntry = entry_of_response hs data;
                          mc' = setInCache mc cacheKey cacheEntry tick
                      in (serveContent rt cfg cacheEntry (req_headers rq), mc')))
          else if st = 404 then (Inr (json_error 404 ''File not found''), mc)
          else (Inr (json_error 502 ''Failed to fetch from origin''), mc))"

text \<open>Lines 43 to 59: the metadata request, whose failure is only logged.\<close>

definition fetch_metadata :: "runtime \<Rightarrow> config \<Rightarrow> string \<Rightarrow> meta_json" where
  "fetch_metadata rt cfg fid =
     (case axios_get_json rt (originUrl cfg @ ''/api/files/'' @ fid) of
        None \<Rightarrow> JFalsy
      | Some (st, d) \<Rightarrow> if 200 \<le> st \<and> st < 300 then d else JFalsy)"

definition origin_fetch :: "runtime \<Rightarrow> config \<Rightarrow> memoryCache \<Rightarrow> nat \<Rightarrow> string \<Rightarrow> request
    \<Rightarrow> (js_error + reply) \<times> memoryCache" where
  "origin_fetch rt cfg mc tick cacheKey rq =
     (let fileMetadata = fetch_metadata rt cfg (file_id rq);
          downloadUrl =
            (case fileMetadata of
               JObject i \<Rightarrow> originUrl cfg @ ''/api/files/''
                             @ (case i of Some s \<Rightarrow> s | None \<Rightarrow> ''undefined'') @ ''/download''
             | JFalsy \<Rightarrow> originUrl cfg @ ''/api/files/'' @ file_id rq @ ''/download'')
      in download rt cfg mc tick cacheKey rq downloadUrl)"

text \<open>
  The handler. \<open>now\<close> is the clock of \<open>verifySignedUrl\<close> in seconds, \<open>tick\<close> the clock of the
  store. \<open>Inl\<close> is a handler that throws; the framework then answers 500.
\<close>

definition cdn_route :: "runtime \<Rightarrow> config \<Rightarrow> int \<Rightarrow> nat \<Rightarrow> memoryCache \<Rightarrow> request
    \<Rightarrow> (js_error + reply) \<times> memoryCache" where
  "cdn_route rt cfg now tick mc rq =
     (if signature_rejected rt cfg now rq
      then (Inr (json_error 403 ''Invalid or expired signature''), mc)
      else (let cacheKey = generateCacheKey (file_id rq) 1;
                (cached, mc1) = getFromCache mc cacheKey tick
            in case cached of
                 Some entry \<Rightarrow> (serveContent rt cfg entry (req_headers rq), mc1)
               | None \<Rightarrow> origin_fetch rt cfg mc1 tick cacheKey rq))"

section \<open>Purging (src/edge/routes/purge.js, src/origin/routes/admin.js)\<close>

definition purge_route :: "memoryCache \<Rightarrow> string \<Rightarrow> memoryCache" where
  "purge_route mc fid = deleteFromCache mc (generateCacheKey fid 1)"

record file_record =
  filename :: string
  version :: nat

type_synonym database = "string \<Rightarrow> file_record option"

text \<open>
  POST /api/admin/purge/:id on the origin, for an authorised caller. \<open>delivered\<close> says
  whether the request to the edge got through; when it did not, the error is only logged.
  The result is the status, the new version, the database and the edge's store.
\<close>

definition admin_purge :: "database \<Rightarrow> bool \<Rightarrow> memoryCache \<Rightarrow> string
    \<Rightarrow> nat \<times> nat option \<times> database \<times> memoryCache" where
  "admin_purge db delivered edge fid =
     (case db fid of
        None \<Rightarrow> (404, None, db, edge)
      | Some file \<Rightarrow>
          (let newVersion = (if version file = 0 then 1 else version file) + 1;
               db' = db(fid \<mapsto> file\<lparr> version := newVersion \<rparr>);
               edge' = (if delivered then purge_route edge fid else edge)
           in (200, Some newVersion, db', edge')))"

section \<open>A small installation to run the definitions on\<close>

text \<open>
  One file \<open>f1\<close> of ten bytes at the origin, a store of two entries, and stand-ins for
  the library functions (the HMAC joins key and data, a date is its number of
  milliseconds, the compressors put one byte in front).
\<close>

definition demo_config :: config where
  "demo_config = \<lparr> jwtSecret = ''k'', cache_maxSize = 2, cache_ttl = 1000,
      memoryEnabled = True, compression_gzip = True, compression_brotli = True,
      originUrl = ''http://o'' \<rparr>"

definition demo_hmac :: hmac_hex where
  "demo_hmac key data = key @ ''|'' @ data"

definition demo_bytes :: buffer where
  "demo_bytes = [1, 2, 3, 4, 5, 6, 7, 8, 9, 10]"

definition demo_metadata :: metadata where
  "demo_metadata = \<lparr> contentType = Some ''text/plain'', etag = Some ''abc'',
      lastModified = Some ''1000'', contentLength = Some ''10'',
      cacheControl = ''public, max-age=31536000'' \<rparr>"

definition demo_entry :: cache_entry where
  "demo_entry = \<lparr> content = demo_bytes, metadata = demo_metadata \<rparr>"

definition demo_origin_headers :: "string \<Rightarrow> string option" where
  "demo_origin_headers n =
     (if n = ''content-type'' then Some ''text/plain''
      else if n = ''etag'' then Some ''abc''
      else if n = ''last-modified'' then Some ''1000''
      else if n = ''content-length'' then Some ''10''
      else None)"

definition demo_rt :: runtime where
  "demo_rt = \<lparr> hmac_sha256_hex = demo_hmac, date_getTime = parseInt10,
      brotliCompress = (\<lambda>b. 206 # b), gzip = (\<lambda>b. 31 # b),
      axios_get_json = (\<lambda>u. if u = ''http://o/api/files/f1'' then Some (200, JObject (Some ''f1''))
                             else Some (404, JFalsy)),
      axios_get_buffer = (\<lambda>u. if u = ''http://o/api/files/f1/download''
                               then Some (200, demo_origin_headers, demo_bytes)
                               else Some (404, (\<lambda>n. None), [])) \<rparr>"

definition offline_rt :: runtime where
  "offline_rt = demo_rt\<lparr> axios_get_json := (\<lambda>u. None), axios_get_buffer := (\<lambda>u. None) \<rparr>"

definition no_headers :: request_headers where
  "no_headers = \<lparr> if_none_match = None, if_modified_since = None, h_range = None,
      accept_encoding = None \<rparr>"

definition demo_request :: request where
  "demo_request = \<lparr> file_id = ''f1'', q_expires = None, q_signature = None,
      req_headers = no_headers \<rparr>"

definition demo_db :: database where
  "demo_db = Map.empty(''f1'' \<mapsto> \<lparr> filename = ''a.jpg'', version = 1 \<rparr>)"

definition demo_reply :: reply where
  "demo_reply = \<lparr> status = 200,
      hdrs = [(''Content-Type'', ''text/plain''), (''Cache-Control'', ''public, max-age=31536000''),
              (''X-Cache'', ''HIT''), (''ETag'', ''abc''), (''Last-Modified'', ''1000''),
              (''Content-Length'', ''10'')],
      payload = Bytes demo_bytes \<rparr>"

definition demo_store :: "nat \<Rightarrow> memoryCache" where
  "demo_store t = Some \<lparr> lru_max = 2, lru_ttl = 1000, lru_items = [(''f1:v1'', demo_entry, t)] \<rparr>"


section \<open>Decimal formatting and parsing\<close>

declare show_nat.simps [simp del]

lemma digit_val_digit_char: "d < 10 \<Longrightarrow> digit_val (digit_char d) = d"
proof -
  assume "d < 10"
  then have "d \<in> {0, 1, 2, 3, 4, 5, 6, 7, 8, 9}" by auto
  then show ?thesis
    unfolding digit_val_def digit_char_def by auto
qed

lemma is_digit_digit_char: "d < 10 \<Longrightarrow> is_digit (digit_char d)"
proof -
  assume "d < 10"
  then have "d \<in> {0, 1, 2, 3, 4, 5, 6, 7, 8, 9}" by auto
  then show ?thesis
    unfolding is_digit_def digit_char_def by auto
qed

lemma parse_digits_snoc: "parse_digits (ds @ [c]) = parse_digits ds * 10 + digit_val c"
  by (simp add: parse_digits_def)

lemma parse_show_nat: "parse_digits (show_nat n) = n"
proof (induction n rule: show_nat.induct)
  case (1 n)
  show ?case
  proof (cases "n < 10")
    case True
    then show ?thesis
      by (simp add: show_nat.simps [of n] parse_digits_def digit_val_digit_char)
  next
    case False
    with 1 have "parse_digits (show_nat (n div 10)) = n div 10" by simp
    with False show ?thesis
      by (simp add: show_nat.simps [of n] parse_digits_snoc digit_val_digit_char)
  qed
qed

lemma show_nat_digits: "\<forall>c \<in> set (show_nat n). is_digit c"
proof (induction n rule: show_nat.induct)
  case (1 n)
  show ?case
  proof (cases "n < 10")
    case True
    then show ?thesis by (simp add: show_nat.simps [of n] is_digit_digit_char)
  next
    case False
    with 1 have "\<forall>c \<in> set (show_nat (n div 10)). is_digit c" by simp
    with False show ?thesis
      by (simp add: show_nat.simps [of n] is_digit_digit_char)
  qed
qed

lemma show_nat_nonempty: "show_nat n \<noteq> []"
  by (subst show_nat.simps) simp







section \<open>The invariant of the store\<close>














section \<open>Headers of a reply\<close>

lemma map_of_put_header: "map_of (put_header n v hs) = (map_of hs)(n \<mapsto> v)"
  by (induction hs) (auto simp: fun_eq_iff)

lemma get_header_header [simp]:
  "get_header (header n v r) m = (if m = n then Some v else get_header r m)"
  by (simp add: get_header_def header_def map_of_put_header)

lemma get_header_code [simp]: "get_header (code k r) m = get_header r m"
  by (simp add: get_header_def code_def)

lemma get_header_send [simp]: "get_header (send p r) m = get_header r m"
  by (simp add: get_header_def send_def)

lemma get_header_new [simp]: "get_header new_reply m = None"
  by (simp add: get_header_def new_reply_def)

lemma status_simps [simp]:
  "status (header n v r) = status r" "status (code k r) = k" "status (send p r) = status r"
  "status new_reply = 200"
  by (simp_all add: header_def code_def send_def new_reply_def)

lemma payload_simps [simp]:
  "payload (header n v r) = payload r" "payload (code k r) = payload r" "payload (send p r) = p"
  by (simp_all add: header_def code_def send_def)

lemma get_header_caching:
  "get_header (caching_headers md new_reply) m =
     (if m = ''Last-Modified'' \<and> truthy (lastModified md) then lastModified md
      else if m = ''ETag'' \<and> truthy (etag md) then etag md
      else if m = ''X-Cache'' then Some ''HIT''
      else if m = ''Cache-Control'' then Some (cacheControl md)
      else if m = ''Content-Type'' then Some (case contentType md of Some t \<Rightarrow> t | None \<Rightarrow> [])
      else None)"
  by (cases "etag md"; cases "lastModified md") (simp_all add: caching_headers_def Let_def)

lemma status_caching [simp]: "status (caching_headers md new_reply) = 200"
  by (simp add: caching_headers_def Let_def split: option.splits)

lemma payload_caching [simp]: "payload (caching_headers md new_reply) = NoPayload"
  by (simp add: caching_headers_def Let_def new_reply_def header_def split: option.splits)

section \<open>The branches of serveContent\<close>

lemma serve_full_cases:
  assumes "serve_full rt cfg entry h r0 = Inr r"
  obtains (br) "isCompressibleType (contentType (metadata entry)) = Inr True"
      "compression_brotli cfg" "js_includes (case accept_encoding h of Some s \<Rightarrow> s | None \<Rightarrow> []) ''br''"
      "r = send (Bytes (brotliCompress rt (content entry)))
             (header ''Vary'' ''Accept-Encoding''
               (header ''Content-Length'' (show_nat (length (brotliCompress rt (content entry))))
                 (header ''Content-Encoding'' ''br'' r0)))"
    | (gz) "isCompressibleType (contentType (metadata entry)) = Inr True"
      "\<not> (compression_brotli cfg \<and> js_includes (case accept_encoding h of Some s \<Rightarrow> s | None \<Rightarrow> []) ''br'')"
      "compression_gzip cfg" "js_includes (case accept_encoding h of Some s \<Rightarrow> s | None \<Rightarrow> []) ''gzip''"
      "r = send (Bytes (gzip rt (content entry)))
             (header ''Vary'' ''Accept-Encoding''
               (header ''Content-Length'' (show_nat (length (gzip rt (content entry))))
                 (header ''Content-Encoding'' ''gzip'' r0)))"
    | (plain) "\<exists>b. isCompressibleType (contentType (metadata entry)) = Inr b \<and>
        \<not> (b \<and> compression_brotli cfg \<and> js_includes (case accept_encoding h of Some s \<Rightarrow> s | None \<Rightarrow> []) ''br'') \<and>
        \<not> (b \<and> compression_gzip cfg \<and> js_includes (case accept_encoding h of Some s \<Rightarrow> s | None \<Rightarrow> []) ''gzip'')"
      "r = send (Bytes (content entry))
             (header ''Content-Length'' (show_nat (length (content entry))) r0)"
  using assms
  by (auto simp: serve_full_def Let_def split: sum.splits if_splits)

lemma get_header_serve_range:
  "get_header (serve_range body rng r) ''Content-Encoding'' = get_header r ''Content-Encoding''"
  by (simp add: serve_range_def Let_def)

lemma status_serve_range [simp]: "status (serve_range body rng r) = 206"
  by (simp add: serve_range_def Let_def)

lemma serveContent_full:
  "full_entity rt entry h \<Longrightarrow>
   serveContent rt cfg entry h = serve_full rt cfg entry h (caching_headers (metadata entry) new_reply)"
  by (cases "h_range h") (auto simp: full_entity_def serveContent_def Let_def)

lemma serveContent_not_full:
  assumes "\<not> full_entity rt entry h" and "serveContent rt cfg entry h = Inr r"
  shows "get_header r ''Content-Encoding'' = None \<and> status r \<noteq> 200"
  using assms
  by (cases "h_range h")
     (auto simp: full_entity_def serveContent_def Let_def get_header_caching get_header_serve_range
           split: if_splits)

lemma replace_first_prefix: "pat \<noteq> [] \<Longrightarrow> replace_first pat rep (pat @ rest) = rep @ rest"
  by (cases pat) (simp_all add: starts_with_def)

lemma split_on_none: "d \<notin> set s \<Longrightarrow> split_on d s = [s]"
  by (induction s) auto

lemma split_on_first: "d \<notin> set s \<Longrightarrow> split_on d (s @ d # rest) = s # split_on d rest"
  by (induction s) auto

lemma digit_not_space: "is_digit c \<Longrightarrow> \<not> js_whitespace c"
  by (auto simp: is_digit_def js_whitespace_def)

lemma digit_not_sign: "is_digit c \<Longrightarrow> c \<noteq> CHR ''-'' \<and> c \<noteq> CHR ''+''"
  by (auto simp: is_digit_def)

lemma show_nat_no_dash: "CHR ''-'' \<notin> set (show_nat n)"
  using show_nat_digits [of n] digit_not_sign by blast

lemma parseInt10_show_nat: "parseInt10 (show_nat n) = Num (int n)"
proof -
  obtain c cs where cs: "show_nat n = c # cs"
    using show_nat_nonempty [of n] by (cases "show_nat n") auto
  have dig: "\<forall>x \<in> set (c # cs). is_digit x" using show_nat_digits [of n] cs by simp
  then have c: "is_digit c" by simp
  have dw: "dropWhile js_whitespace (c # cs) = c # cs" using digit_not_space [OF c] by simp
  have ss: "strip_sign (c # cs) = (False, c # cs)" using digit_not_sign [OF c] by simp
  have tw: "takeWhile is_digit (c # cs) = c # cs" using dig by (simp add: takeWhile_eq_all_conv)
  have pd: "parse_digits (c # cs) = n" using parse_show_nat [of n] cs by simp
  show ?thesis
    unfolding parseInt10_def cs dw ss by (simp only: Let_def prod.case tw pd signed_def) simp
qed

lemma show_int_nat: "show_int (int n) = show_nat n"
  by (simp add: show_int_def)

lemma buffer_slice_inside:
  "s \<le> e \<Longrightarrow> e < length b \<Longrightarrow>
   buffer_slice b (Num (int s)) (Num (int e + 1)) = take (e - s + 1) (drop s b)"
  by (auto simp: buffer_slice_def Let_def nat_add_distrib Suc_diff_le)

lemma serve_range_inside:
  assumes se: "s \<le> e" and en: "e < length body"
    and es: "e_str = show_nat e \<or> (e_str = [] \<and> e = length body - 1)"
  shows "serve_range body (''bytes='' @ show_nat s @ ''-'' @ e_str) r0 =
    send (Bytes (take (e - s + 1) (drop s body)))
      (code 206
        (header ''Content-Length'' (show_nat (e - s + 1))
          (header ''Accept-Ranges'' ''bytes''
            (header ''Content-Range''
               (''bytes '' @ show_nat s @ ''-'' @ show_nat e @ ''/'' @ show_nat (length body)) r0))))"
proof -
  have rf: "replace_first ''bytes='' [] (''bytes='' @ show_nat s @ ''-'' @ e_str) = show_nat s @ ''-'' @ e_str"
    using replace_first_prefix [of "''bytes=''" "[]" "show_nat s @ ''-'' @ e_str"] by simp
  have sp: "split_on CHR ''-'' (show_nat s @ ''-'' @ e_str) = [show_nat s, e_str]"
    using es split_on_first [OF show_nat_no_dash, of s e_str] split_on_none [OF show_nat_no_dash, of e]
    by auto
  have endb: "(if e_str \<noteq> [] then parseInt10 e_str else Num (int (length body) - 1)) = Num (int e)"
    using es en by (auto simp: parseInt10_show_nat show_nat_nonempty of_nat_diff)
  have cs: "js_add (js_sub (Num (int e)) (Num (int s))) (Num 1) = Num (int (e - s + 1))"
    using se by (simp add: of_nat_diff)
  have e1: "js_add (Num (int e)) (Num 1) = Num (int e + 1)" by simp
  show ?thesis
    unfolding serve_range_def rf sp
    by (simp only: Let_def list.case endb parseInt10_show_nat cs e1 num_to_string.simps
        show_int_nat buffer_slice_inside [OF se en])
qed

section \<open>Running the small installation\<close>

lemmas reply_defs = header_def code_def send_def new_reply_def json_error_def get_header_def

lemmas serve_defs = serveContent_def caching_headers_def etag_matches_def not_modified_since_def
  serve_range_def serve_full_def isCompressibleType_def compressibleTypes_def starts_with_def
  buffer_slice_def parseInt10_def signed_def parse_digits_def digit_val_def is_digit_def
  js_whitespace_def show_int_def show_nat.simps digit_char_def Let_def

lemmas cache_defs = initCache_def getFromCache_def setInCache_def deleteFromCache_def
  clearCache_def lru_new_def lru_get_def lru_set_def lru_delete_def lru_clear_def lru_keys_def
  lru_size_def lru_remove_def lru_stale_def generateCacheKey_def live_keys_def cache_size_def

lemmas demo_defs = demo_config_def demo_hmac_def demo_bytes_def demo_metadata_def demo_entry_def
  demo_origin_headers_def demo_rt_def offline_rt_def no_headers_def demo_request_def demo_db_def

lemma demo_key: "generateCacheKey ''f1'' 1 = ''f1:v1''"
  by (simp add: generateCacheKey_def show_nat.simps digit_char_def)

lemma demo_origin_entry: "entry_of_response demo_origin_headers demo_bytes = demo_entry"
  by (simp add: entry_of_response_def demo_defs)

lemma demo_serve_plain: "serveContent rt demo_config demo_entry no_headers = Inr demo_reply"
  by (simp add: serve_defs reply_defs demo_defs demo_reply_def)

lemma demo_init: "initCache demo_config None = Some \<lparr> lru_max = 2, lru_ttl = 1000, lru_items = [] \<rparr>"
  by (simp add: cache_defs demo_defs)





lemma demo_len: "length demo_bytes = 10"
  by (simp add: demo_bytes_def)

lemma demo_strings:
  "show_nat 0 = ''0''" "show_nat 1 = ''1''" "show_nat 2 = ''2''" "show_nat 3 = ''3''"
  "show_nat 4 = ''4''" "show_nat 10 = ''10''" "show_nat 11 = ''11''"
  by (simp_all add: show_nat.simps digit_char_def)

lemma demo_parse:
  "parseInt10 ''0'' = Num 0" "parseInt10 ''3'' = Num 3" "parseInt10 ''99'' = Num 99"
  "parseInt10 ''1000'' = Num 1000" "parseInt10 ''2000'' = Num 2000"
  by (simp_all add: parseInt10_def signed_def parse_digits_def digit_val_def is_digit_def
      js_whitespace_def)

lemma demo_take: "take 4 demo_bytes = [1, 2, 3, 4]"
  by (simp add: demo_bytes_def)

lemma demo_no_condition:
  "\<not> etag_matches (metadata demo_entry) (no_headers\<lparr> h_range := x \<rparr>)"
  "\<not> not_modified_since rt (metadata demo_entry) (no_headers\<lparr> h_range := x \<rparr>)"
  "\<not> etag_matches (metadata demo_entry) (no_headers\<lparr> accept_encoding := y \<rparr>)"
  "\<not> not_modified_since rt (metadata demo_entry) (no_headers\<lparr> accept_encoding := y \<rparr>)"
  by (simp_all add: etag_matches_def not_modified_since_def no_headers_def)

lemma demo_full: "full_entity rt demo_entry (no_headers\<lparr> accept_encoding := y \<rparr>)"
  by (simp add: full_entity_def etag_matches_def not_modified_since_def no_headers_def)

lemma demo_key1: "generateCacheKey ''f1'' (Suc 0) = ''f1:v1''"
  using demo_key by simp

lemma demo_not_rejected: "\<not> signature_rejected rt cfg now demo_request"
  by (simp add: signature_rejected_def demo_request_def)

lemma demo_fid: "file_id demo_request = ''f1''" "req_headers demo_request = no_headers"
  by (simp_all add: demo_request_def)

lemma demo_url: "originUrl demo_config = ''http://o''"
  by (simp add: demo_config_def)

lemma demo_miss: "getFromCache (initCache demo_config None) ''f1:v1'' t = (None, initCache demo_config None)"
  by (simp add: demo_init getFromCache_def lru_get_def)

lemma demo_fill: "setInCache (initCache demo_config None) ''f1:v1'' demo_entry t = demo_store t"
  by (simp add: demo_init setInCache_def lru_set_def lru_keys_def lru_size_def demo_store_def)

lemma demo_hit: "getFromCache (demo_store 0) ''f1:v1'' 1 = (Some demo_entry, demo_store 1)"
  by (simp add: demo_store_def getFromCache_def lru_get_def lru_stale_def lru_remove_def)

lemma demo_request_at:
  "cdn_route demo_rt demo_config now t (initCache demo_config None) demo_request =
     (Inr demo_reply, demo_store t)"
proof -
  have meta: "fetch_metadata demo_rt demo_config ''f1'' = JObject (Some ''f1'')"
    by (simp add: fetch_metadata_def demo_rt_def demo_config_def)
  have get: "axios_get_buffer demo_rt ''http://o/api/files/f1/download'' =
      Some (200, demo_origin_headers, demo_bytes)"
    by (simp add: demo_rt_def)
  have dl: "download demo_rt demo_config (initCache demo_config None) t ''f1:v1'' demo_request
        ''http://o/api/files/f1/download'' = (Inr demo_reply, demo_store t)"
    unfolding download_def get
    by (simp add: demo_origin_entry demo_serve_plain demo_fid demo_fill)
  have "origin_fetch demo_rt demo_config (initCache demo_config None) t ''f1:v1'' demo_request =
      (Inr demo_reply, demo_store t)"
    unfolding origin_fetch_def Let_def demo_fid demo_url meta using dl by simp
  then show ?thesis
    unfolding cdn_route_def demo_fid demo_key using demo_not_rejected demo_miss by simp
qed

lemma demo_parseInt: "parseInt ''160'' = Num 160"
  by (simp add: parseInt_def signed_def parse_digits_def digit_val_def is_digit_def
      js_whitespace_def)

section \<open>The route and the purge\<close>


lemma serve_full_hmac [simp]:
  "serve_full (rt\<lparr> hmac_sha256_hex := f \<rparr>) cfg entry h r = serve_full rt cfg entry h r"
  by (simp add: serve_full_def Let_def cong: sum.case_cong if_cong)

lemma not_modified_since_hmac [simp]:
  "not_modified_since (rt\<lparr> hmac_sha256_hex := f \<rparr>) md h = not_modified_since rt md h"
  by (simp add: not_modified_since_def Let_def cong: option.case_cong)

lemma serveContent_hmac [simp]:
  "serveContent (rt\<lparr> hmac_sha256_hex := f \<rparr>) cfg entry h = serveContent rt cfg entry h"
  by (simp add: serveContent_def Let_def cong: option.case_cong if_cong)

lemma download_hmac [simp]:
  "download (rt\<lparr> hmac_sha256_hex := f \<rparr>) cfg mc tick key rq url = download rt cfg mc tick key rq url"
  by (simp add: download_def Let_def cong: option.case_cong if_cong prod.case_cong)

lemma download_query [simp]:
  "download rt cfg mc tick key (rq\<lparr> q_expires := e, q_signature := s \<rparr>) url =
   download rt cfg mc tick key rq url"
  by (simp add: download_def Let_def cong: option.case_cong if_cong prod.case_cong)

lemma origin_fetch_hmac [simp]:
  "origin_fetch (rt\<lparr> hmac_sha256_hex := f \<rparr>) cfg mc tick key rq = origin_fetch rt cfg mc tick key rq"
  by (simp add: origin_fetch_def fetch_metadata_def Let_def)

lemma origin_fetch_query [simp]:
  "origin_fetch rt cfg mc tick key (rq\<lparr> q_expires := e, q_signature := s \<rparr>) =
   origin_fetch rt cfg mc tick key rq"
  by (simp add: origin_fetch_def Let_def cong: meta_json.case_cong)

lemma cdn_route_public:
  "\<not> signature_rejected rt cfg now rq \<Longrightarrow>
   cdn_route rt cfg now tick mc rq =
   cdn_route (rt\<lparr> hmac_sha256_hex := f \<rparr>) cfg now' tick mc (rq\<lparr> q_expires := None, q_signature := None \<rparr>)"
  by (simp add: cdn_route_def signature_rejected_def Let_def
      cong: prod.case_cong option.case_cong)

lemma map_of_remove: "map_of (lru_remove k xs) k = None"
  by (induction xs) (auto simp: lru_remove_def)

lemma get_after_purge:
  "getFromCache (purge_route mc fid) (generateCacheKey fid 1) tick = (None, purge_route mc fid)"
  by (cases mc)
     (simp_all add: purge_route_def deleteFromCache_def getFromCache_def lru_get_def lru_delete_def
        map_of_remove)

section \<open>C1: purge and the cache key\<close>

text \<open>
  C1, as amended. After a purge on the origin whose notification reaches the edge, the
  version of the file record is one more than before (two for a record without a
  version), the edge holds nothing under the key \<open>id:v1\<close>, and the next request for
  the identifier looks up that same key, misses, and fetches from the origin under it.
  The edge never builds a key from the new version.
\<close>

theorem purge_then_request:
  assumes rec: "db fid = Some file"
    and purge: "admin_purge db True edge fid = (st, nv, db', edge')"
    and rq: "file_id rq = fid" and auth: "\<not> signature_rejected rt cfg now rq"
  shows "st = 200 \<and> nv = Some ((if version file = 0 then 1 else version file) + 1) \<and>
     map_option version (db' fid) = nv \<and>
     fst (getFromCache edge' (generateCacheKey fid 1) tick) = None \<and>
     cdn_route rt cfg now tick edge' rq = origin_fetch rt cfg edge' tick (generateCacheKey fid 1) rq"
proof -
  from rec purge have st: "st = 200"
    and nv: "nv = Some ((if version file = 0 then 1 else version file) + 1)"
    and db': "map_option version (db' fid) = nv" and e: "edge' = purge_route edge fid"
    by (auto simp: admin_purge_def Let_def)
  have g: "getFromCache edge' (generateCacheKey fid 1) tick = (None, edge')"
    unfolding e by (rule get_after_purge)
  then have "cdn_route rt cfg now tick edge' rq = origin_fetch rt cfg edge' tick (generateCacheKey fid 1) rq"
    using auth rq by (simp add: cdn_route_def)
  with st nv db' g show ?thesis by simp
qed

text \<open>C1 as amended, for file \<open>f1\<close> at version 1 with the entry cached.\<close>

theorem purge_then_request_witness:
  "admin_purge demo_db True (demo_store 0) ''f1'' =
     (200, Some 2, demo_db(''f1'' \<mapsto> \<lparr> filename = ''a.jpg'', version = 2 \<rparr>),
      initCache demo_config None) \<and>
   fst (getFromCache (initCache demo_config None) (generateCacheKey ''f1'' 1) 1) = None \<and>
   cdn_route demo_rt demo_config 0 1 (initCache demo_config None) demo_request =
     origin_fetch demo_rt demo_config (initCache demo_config None) 1 (generateCacheKey ''f1'' 1)
       demo_request \<and>
   cdn_route demo_rt demo_config 0 1 (initCache demo_config None) demo_request =
     (Inr demo_reply, demo_store 1)"
proof -
  have rec: "demo_db ''f1'' = Some \<lparr> filename = ''a.jpg'', version = 1 \<rparr>"
    by (simp add: demo_db_def)
  have purge: "admin_purge demo_db True (demo_store 0) ''f1'' =
     (200, Some 2, demo_db(''f1'' \<mapsto> \<lparr> filename = ''a.jpg'', version = 2 \<rparr>),
      initCache demo_config None)"
    by (simp add: admin_purge_def rec purge_route_def deleteFromCache_def lru_delete_def
        lru_remove_def demo_store_def demo_key1 demo_init numeral_2_eq_2)
  from purge_then_request [where rt = demo_rt and cfg = demo_config and now = 0 and tick = 1,
      OF rec purge demo_fid(1) demo_not_rejected]
  have "fst (getFromCache (initCache demo_config None) (generateCacheKey ''f1'' 1) 1) = None"
    and "cdn_route demo_rt demo_config 0 1 (initCache demo_config None) demo_request =
     origin_fetch demo_rt demo_config (initCache demo_config None) 1 (generateCacheKey ''f1'' 1)
       demo_request"
    by blast+
  with purge show ?thesis by (simp only: demo_request_at)
qed

text \<open>
  C1 as stated fails. The purge sets the version to 2, yet nothing is ever looked up
  under \<open>f1:v2\<close>: when the notification does not reach the edge, the next request is
  answered from the entry under \<open>f1:v1\<close> although the origin is unreachable, and when
  it does, the refetched entry is stored under \<open>f1:v1\<close> again.
\<close>

theorem purge_key_counterexample:
  "snd (cdn_route demo_rt demo_config 0 0 (initCache demo_config None) demo_request) = demo_store 0 \<and>
   admin_purge demo_db False (demo_store 0) ''f1'' =
     (200, Some 2, demo_db(''f1'' \<mapsto> \<lparr> filename = ''a.jpg'', version = 2 \<rparr>), demo_store 0) \<and>
   generateCacheKey ''f1'' 2 = ''f1:v2'' \<and>
   fst (getFromCache (demo_store 0) ''f1:v2'' 1) = None \<and>
   cdn_route offline_rt demo_config 0 1 (demo_store 0) demo_request = (Inr demo_reply, demo_store 1) \<and>
   admin_purge demo_db True (demo_store 0) ''f1'' =
     (200, Some 2, demo_db(''f1'' \<mapsto> \<lparr> filename = ''a.jpg'', version = 2 \<rparr>),
      initCache demo_config None) \<and>
   live_keys (snd (cdn_route demo_rt demo_config 0 1 (initCache demo_config None) demo_request))
     = {''f1:v1''}"
proof -
  have rec: "demo_db ''f1'' = Some \<lparr> filename = ''a.jpg'', version = 1 \<rparr>"
    by (simp add: demo_db_def)
  have p0: "admin_purge demo_db False (demo_store 0) ''f1'' =
     (200, Some 2, demo_db(''f1'' \<mapsto> \<lparr> filename = ''a.jpg'', version = 2 \<rparr>), demo_store 0)"
    by (simp add: admin_purge_def rec numeral_2_eq_2)
  have p1: "admin_purge demo_db True (demo_store 0) ''f1'' =
     (200, Some 2, demo_db(''f1'' \<mapsto> \<lparr> filename = ''a.jpg'', version = 2 \<rparr>),
      initCache demo_config None)"
    by (simp add: admin_purge_def rec purge_route_def deleteFromCache_def lru_delete_def
        lru_remove_def demo_store_def demo_key1 demo_init numeral_2_eq_2)
  have k2: "generateCacheKey ''f1'' 2 = ''f1:v2''"
    by (simp add: generateCacheKey_def show_nat.simps digit_char_def)
  have g2: "fst (getFromCache (demo_store 0) ''f1:v2'' 1) = None"
    by (simp add: demo_store_def getFromCache_def lru_get_def)
  have stale: "cdn_route offline_rt demo_config 0 1 (demo_store 0) demo_request =
      (Inr demo_reply, demo_store 1)"
    unfolding cdn_route_def demo_fid demo_key
    using demo_not_rejected [of offline_rt demo_config 0]
    by (simp add: demo_hit [simplified] demo_fid demo_serve_plain)
  have lk: "live_keys (demo_store 1) = {''f1:v1''}"
    by (simp add: live_keys_def demo_store_def lru_keys_def)
  from p0 p1 k2 g2 stale lk show ?thesis by (simp only: demo_request_at snd_conv)
qed

section \<open>C2, C3: signed URLs\<close>





section \<open>C4: capacity and eviction order of the store\<close>



section \<open>C5: conditional requests\<close>

text \<open>
  C5, as amended. If the request's If-None-Match equals the entry's non-empty ETag, or
  its If-Modified-Since and the entry's Last-Modified are non-empty and parse to times
  with the former at or after the latter, the reply is 304 with no body. It carries
  Content-Type, Cache-Control and X-Cache: HIT besides the validators ETag and
  Last-Modified (each when the entry has it), and no other header.
\<close>

theorem conditional_request_304:
  assumes cond:
    "(if_none_match h = Some t \<and> etag (metadata entry) = Some t \<and> t \<noteq> []) \<or>
     (if_modified_since h = Some a \<and> lastModified (metadata entry) = Some b \<and> a \<noteq> [] \<and> b \<noteq> [] \<and>
      date_getTime rt a = Num x \<and> date_getTime rt b = Num y \<and> y \<le> x)"
  shows "\<exists>r. serveContent rt cfg entry h = Inr r \<and> status r = 304 \<and> payload r = NoPayload \<and>
     get_header r ''Content-Type'' =
        Some (case contentType (metadata entry) of Some t \<Rightarrow> t | None \<Rightarrow> []) \<and>
     get_header r ''Cache-Control'' = Some (cacheControl (metadata entry)) \<and>
     get_header r ''X-Cache'' = Some ''HIT'' \<and>
     get_header r ''ETag'' = (if truthy (etag (metadata entry)) then etag (metadata entry) else None) \<and>
     get_header r ''Last-Modified'' =
        (if truthy (lastModified (metadata entry)) then lastModified (metadata entry) else None) \<and>
     (\<forall>n. n \<notin> {''Content-Type'', ''Cache-Control'', ''X-Cache'', ''ETag'', ''Last-Modified''}
          \<longrightarrow> get_header r n = None)"
proof -
  let ?r = "send NoPayload (code 304 (caching_headers (metadata entry) new_reply))"
  from cond have "etag_matches (metadata entry) h \<or> not_modified_since rt (metadata entry) h"
    by (auto simp: etag_matches_def not_modified_since_def)
  then have "serveContent rt cfg entry h = Inr ?r"
    by (auto simp: serveContent_def Let_def)
  moreover have "status ?r = 304" "payload ?r = NoPayload" by simp_all
  moreover have "get_header ?r n = get_header (caching_headers (metadata entry) new_reply) n" for n
    by simp
  ultimately show ?thesis
    by (simp add: get_header_caching)
qed

text \<open>C5 as amended, once by the ETag and once by the date.\<close>

theorem conditional_request_304_witness:
  "serveContent demo_rt demo_config demo_entry (no_headers\<lparr> if_none_match := Some ''abc'' \<rparr>) =
     Inr \<lparr> status = 304,
           hdrs = [(''Content-Type'', ''text/plain''), (''Cache-Control'', ''public, max-age=31536000''),
                   (''X-Cache'', ''HIT''), (''ETag'', ''abc''), (''Last-Modified'', ''1000'')],
           payload = NoPayload \<rparr> \<and>
   serveContent demo_rt demo_config demo_entry (no_headers\<lparr> if_modified_since := Some ''2000'' \<rparr>) =
     Inr \<lparr> status = 304,
           hdrs = [(''Content-Type'', ''text/plain''), (''Cache-Control'', ''public, max-age=31536000''),
                   (''X-Cache'', ''HIT''), (''ETag'', ''abc''), (''Last-Modified'', ''1000'')],
           payload = NoPayload \<rparr>"
proof -
  let ?h1 = "no_headers\<lparr> if_none_match := Some ''abc'' \<rparr>"
  let ?h2 = "no_headers\<lparr> if_modified_since := Some ''2000'' \<rparr>"
  have c1: "if_none_match ?h1 = Some ''abc'' \<and> etag (metadata demo_entry) = Some ''abc'' \<and> ''abc'' \<noteq> []"
    by (simp add: demo_entry_def demo_metadata_def)
  have c2: "if_modified_since ?h2 = Some ''2000'' \<and> lastModified (metadata demo_entry) = Some ''1000'' \<and>
      ''2000'' \<noteq> [] \<and> ''1000'' \<noteq> [] \<and> date_getTime demo_rt ''2000'' = Num 2000 \<and>
      date_getTime demo_rt ''1000'' = Num 1000 \<and> (1000::int) \<le> 2000"
    by (simp add: demo_entry_def demo_metadata_def demo_rt_def demo_parse)
  from conditional_request_304 [of ?h1 "''abc''" demo_entry _ _ demo_rt _ _ demo_config, OF disjI1, OF c1]
  obtain r1 where r1: "serveContent demo_rt demo_config demo_entry ?h1 = Inr r1" and s1: "status r1 = 304"
    by blast
  from conditional_request_304 [of ?h2 _ demo_entry "''2000''" "''1000''" demo_rt 2000 1000 demo_config,
      OF disjI2, OF c2]
  obtain r2 where r2: "serveContent demo_rt demo_config demo_entry ?h2 = Inr r2" and s2: "status r2 = 304"
    by blast
  have e1: "serveContent demo_rt demo_config demo_entry ?h1 =
     Inr \<lparr> status = 304,
           hdrs = [(''Content-Type'', ''text/plain''), (''Cache-Control'', ''public, max-age=31536000''),
                   (''X-Cache'', ''HIT''), (''ETag'', ''abc''), (''Last-Modified'', ''1000'')],
           payload = NoPayload \<rparr>"
    by (simp add: serveContent_def caching_headers_def etag_matches_def reply_defs demo_entry_def
        demo_metadata_def no_headers_def Let_def)
  have e2: "serveContent demo_rt demo_config demo_entry ?h2 =
     Inr \<lparr> status = 304,
           hdrs = [(''Content-Type'', ''text/plain''), (''Cache-Control'', ''public, max-age=31536000''),
                   (''X-Cache'', ''HIT''), (''ETag'', ''abc''), (''Last-Modified'', ''1000'')],
           payload = NoPayload \<rparr>"
    by (simp add: serveContent_def caching_headers_def etag_matches_def not_modified_since_def
        reply_defs demo_entry_def demo_metadata_def no_headers_def demo_rt_def demo_parse Let_def)
  from e1 e2 r1 s1 r2 s2 show ?thesis by simp
qed

text \<open>
  C5 as stated fails: the 304 reply carries Content-Type, a content header that is no
  validator; and an empty If-None-Match against an empty ETag, equal byte for byte, is
  answered 200.
\<close>

theorem conditional_304_counterexample:
  "serveContent demo_rt demo_config demo_entry (no_headers\<lparr> if_none_match := Some ''abc'' \<rparr>) =
     Inr \<lparr> status = 304,
           hdrs = [(''Content-Type'', ''text/plain''), (''Cache-Control'', ''public, max-age=31536000''),
                   (''X-Cache'', ''HIT''), (''ETag'', ''abc''), (''Last-Modified'', ''1000'')],
           payload = NoPayload \<rparr> \<and>
   if_none_match (no_headers\<lparr> if_none_match := Some [] \<rparr>)
     = etag (metadata (demo_entry\<lparr> metadata := demo_metadata\<lparr> etag := Some [] \<rparr> \<rparr>)) \<and>
   serveContent demo_rt demo_config (demo_entry\<lparr> metadata := demo_metadata\<lparr> etag := Some [] \<rparr> \<rparr>)
       (no_headers\<lparr> if_none_match := Some [] \<rparr>) =
     Inr \<lparr> status = 200,
           hdrs = [(''Content-Type'', ''text/plain''), (''Cache-Control'', ''public, max-age=31536000''),
                   (''X-Cache'', ''HIT''), (''Last-Modified'', ''1000''), (''Content-Length'', ''10'')],
           payload = Bytes demo_bytes \<rparr>"
  by (simp add: serveContent_def caching_headers_def etag_matches_def not_modified_since_def
      serve_full_def isCompressibleType_def compressibleTypes_def starts_with_def
      reply_defs demo_entry_def demo_metadata_def no_headers_def demo_len demo_strings Let_def)

section \<open>C6: range requests\<close>

text \<open>
  C6, as amended. When neither conditional check answers 304 and the Range header is
  \<open>bytes=s-e\<close> with \<open>s \<le> e < n\<close>, or \<open>bytes=s-\<close> with \<open>s < n\<close> (then \<open>e = n - 1\<close>),
  \<open>n\<close> being the length of the entry, the reply is 206 with Content-Range
  \<open>bytes s-e/n\<close>, Accept-Ranges \<open>bytes\<close>, Content-Length \<open>e - s + 1\<close> and exactly the
  bytes \<open>s\<close> to \<open>e\<close> as body. Nothing is said of a range outside the entry.
\<close>

theorem range_request_206:
  assumes nc: "\<not> etag_matches (metadata entry) h" "\<not> not_modified_since rt (metadata entry) h"
    and rng: "h_range h = Some (''bytes='' @ show_nat s @ ''-'' @ e_str)"
    and es: "e_str = show_nat e \<or> (e_str = [] \<and> e = length (content entry) - 1)"
    and se: "s \<le> e" and en: "e < length (content entry)"
  shows "\<exists>r. serveContent rt cfg entry h = Inr r \<and> status r = 206 \<and>
     get_header r ''Content-Range'' =
        Some (''bytes '' @ show_nat s @ ''-'' @ show_nat e @ ''/'' @ show_nat (length (content entry))) \<and>
     get_header r ''Accept-Ranges'' = Some ''bytes'' \<and>
     get_header r ''Content-Length'' = Some (show_nat (e - s + 1)) \<and>
     payload r = Bytes (take (e - s + 1) (drop s (content entry)))"
proof -
  have "serveContent rt cfg entry h =
      Inr (serve_range (content entry) (''bytes='' @ show_nat s @ ''-'' @ e_str)
             (caching_headers (metadata entry) new_reply))"
    using nc rng by (simp add: serveContent_def Let_def)
  then show ?thesis
    unfolding serve_range_inside [OF se en es] by simp
qed

text \<open>C6 as amended, for \<open>bytes=0-3\<close> of the ten bytes.\<close>

theorem range_request_206_witness:
  "serveContent demo_rt demo_config demo_entry (no_headers\<lparr> h_range := Some ''bytes=0-3'' \<rparr>) =
     Inr \<lparr> status = 206,
           hdrs = [(''Content-Type'', ''text/plain''), (''Cache-Control'', ''public, max-age=31536000''),
                   (''X-Cache'', ''HIT''), (''ETag'', ''abc''), (''Last-Modified'', ''1000''),
                   (''Content-Range'', ''bytes 0-3/10''), (''Accept-Ranges'', ''bytes''),
                   (''Content-Length'', ''4'')],
           payload = Bytes [1, 2, 3, 4] \<rparr>"
proof -
  let ?h = "no_headers\<lparr> h_range := Some ''bytes=0-3'' \<rparr>"
  have rng: "h_range ?h = Some (''bytes='' @ show_nat 0 @ ''-'' @ show_nat 3)"
    by (simp add: demo_strings)
  have en: "3 < length (content demo_entry)" by (simp add: demo_entry_def demo_len)
  from range_request_206 [OF demo_no_condition(1) demo_no_condition(2) rng disjI1 [OF refl] _ en,
      of demo_rt demo_config]
  obtain r where r: "serveContent demo_rt demo_config demo_entry ?h = Inr r"
    and st: "status r = 206"
    and cr: "get_header r ''Content-Range'' = Some ''bytes 0-3/10''"
    and cl: "get_header r ''Content-Length'' = Some ''4''"
    and pl: "payload r = Bytes [1, 2, 3, 4]"
    by (auto simp: demo_strings demo_entry_def demo_len demo_take)
  have "serveContent demo_rt demo_config demo_entry ?h =
     Inr \<lparr> status = 206,
           hdrs = [(''Content-Type'', ''text/plain''), (''Cache-Control'', ''public, max-age=31536000''),
                   (''X-Cache'', ''HIT''), (''ETag'', ''abc''), (''Last-Modified'', ''1000''),
                   (''Content-Range'', ''bytes 0-3/10''), (''Accept-Ranges'', ''bytes''),
                   (''Content-Length'', ''4'')],
           payload = Bytes [1, 2, 3, 4] \<rparr>"
    by (simp add: serveContent_def caching_headers_def etag_matches_def not_modified_since_def
        serve_range_def starts_with_def buffer_slice_def reply_defs demo_entry_def demo_metadata_def
        no_headers_def demo_len demo_strings demo_parse demo_take show_int_def Let_def)
  with r st cr cl pl show ?thesis by simp
qed

text \<open>
  C6 as stated fails: for \<open>bytes=0-99\<close> of ten bytes the headers are not clamped. The
  reply announces \<open>bytes 0-99/10\<close> and a Content-Length of 100 over a body of ten bytes.
\<close>

theorem range_unclamped_counterexample:
  "serveContent demo_rt demo_config demo_entry (no_headers\<lparr> h_range := Some ''bytes=0-99'' \<rparr>) =
     Inr \<lparr> status = 206,
           hdrs = [(''Content-Type'', ''text/plain''), (''Cache-Control'', ''public, max-age=31536000''),
                   (''X-Cache'', ''HIT''), (''ETag'', ''abc''), (''Last-Modified'', ''1000''),
                   (''Content-Range'', ''bytes 0-99/10''), (''Accept-Ranges'', ''bytes''),
                   (''Content-Length'', ''100'')],
           payload = Bytes demo_bytes \<rparr> \<and>
   length demo_bytes = 10"
  by (simp add: serveContent_def caching_headers_def etag_matches_def not_modified_since_def
      serve_range_def starts_with_def buffer_slice_def reply_defs demo_entry_def demo_metadata_def
      no_headers_def demo_len demo_strings demo_parse show_int_def show_nat.simps digit_char_def
      Let_def)

section \<open>C7: compression\<close>

text \<open>
  C7, as amended. In any reply of serveContent: a Content-Encoding is set only on a
  whole-entity reply whose content type starts with one of the six listed prefixes;
  on such a reply brotli is chosen when it is enabled in the configuration and
  Accept-Encoding contains \<open>br\<close> (whether or not gzip is allowed too), otherwise gzip
  when it is enabled and Accept-Encoding contains \<open>gzip\<close>, otherwise the body is sent
  as it is; and a reply to a range request is never compressed.
\<close>

theorem compression_negotiation:
  assumes sc: "serveContent rt cfg entry h = Inr r"
    and ae: "acceptEncoding = (case accept_encoding h of Some s \<Rightarrow> s | None \<Rightarrow> [])"
    and ct: "ct = contentType (metadata entry)"
  shows "(isCompressibleType ct = Inr True \<longleftrightarrow>
            (\<exists>t. ct = Some t \<and>
               (\<exists>p \<in> {''text/'', ''application/javascript'', ''application/json'',
                        ''application/xml'', ''application/x-javascript'', ''image/svg+xml''}.
                  take (length p) t = p))) \<and>
         (get_header r ''Content-Encoding'' \<noteq> None \<longrightarrow>
            isCompressibleType ct = Inr True \<and> full_entity rt entry h \<and> status r = 200) \<and>
         (full_entity rt entry h \<and> isCompressibleType ct = Inr True \<and>
          compression_brotli cfg \<and> js_includes acceptEncoding ''br'' \<longrightarrow>
            get_header r ''Content-Encoding'' = Some ''br'' \<and>
            payload r = Bytes (brotliCompress rt (content entry))) \<and>
         (full_entity rt entry h \<and> isCompressibleType ct = Inr True \<and>
          \<not> (compression_brotli cfg \<and> js_includes acceptEncoding ''br'') \<and>
          compression_gzip cfg \<and> js_includes acceptEncoding ''gzip'' \<longrightarrow>
            get_header r ''Content-Encoding'' = Some ''gzip'' \<and>
            payload r = Bytes (gzip rt (content entry))) \<and>
         (full_entity rt entry h \<and>
          (isCompressibleType ct = Inr False \<or>
           \<not> (compression_brotli cfg \<and> js_includes acceptEncoding ''br'') \<and>
           \<not> (compression_gzip cfg \<and> js_includes acceptEncoding ''gzip'')) \<longrightarrow>
            get_header r ''Content-Encoding'' = None \<and> payload r = Bytes (content entry)) \<and>
         (truthy (h_range h) \<longrightarrow> get_header r ''Content-Encoding'' = None \<and> status r \<noteq> 200)"
proof -
  have allow: "isCompressibleType ct = Inr True \<longleftrightarrow>
            (\<exists>t. ct = Some t \<and>
               (\<exists>p \<in> {''text/'', ''application/javascript'', ''application/json'',
                        ''application/xml'', ''application/x-javascript'', ''image/svg+xml''}.
                  take (length p) t = p))"
    by (cases ct) (simp_all add: isCompressibleType_def compressibleTypes_def starts_with_def)
  have rest: "(get_header r ''Content-Encoding'' \<noteq> None \<longrightarrow>
            isCompressibleType ct = Inr True \<and> full_entity rt entry h \<and> status r = 200) \<and>
         (full_entity rt entry h \<and> isCompressibleType ct = Inr True \<and>
          compression_brotli cfg \<and> js_includes acceptEncoding ''br'' \<longrightarrow>
            get_header r ''Content-Encoding'' = Some ''br'' \<and>
            payload r = Bytes (brotliCompress rt (content entry))) \<and>
         (full_entity rt entry h \<and> isCompressibleType ct = Inr True \<and>
          \<not> (compression_brotli cfg \<and> js_includes acceptEncoding ''br'') \<and>
          compression_gzip cfg \<and> js_includes acceptEncoding ''gzip'' \<longrightarrow>
            get_header r ''Content-Encoding'' = Some ''gzip'' \<and>
            payload r = Bytes (gzip rt (content entry))) \<and>
         (full_entity rt entry h \<and>
          (isCompressibleType ct = Inr False \<or>
           \<not> (compression_brotli cfg \<and> js_includes acceptEncoding ''br'') \<and>
           \<not> (compression_gzip cfg \<and> js_includes acceptEncoding ''gzip'')) \<longrightarrow>
            get_header r ''Content-Encoding'' = None \<and> payload r = Bytes (content entry)) \<and>
         (truthy (h_range h) \<longrightarrow> get_header r ''Content-Encoding'' = None \<and> status r \<noteq> 200)"
  proof (cases "full_entity rt entry h")
    case False
    from serveContent_not_full [OF False sc] False show ?thesis
      by (auto simp: full_entity_def)
  next
    case True
    then have nr: "\<not> truthy (h_range h)" by (simp add: full_entity_def)
    from sc serveContent_full [OF True]
    have sf: "serve_full rt cfg entry h (caching_headers (metadata entry) new_reply) = Inr r" by simp
    from sf show ?thesis
    proof (cases rule: serve_full_cases)
      case br
      with True nr ae ct show ?thesis by simp
    next
      case gz
      with True nr ae ct show ?thesis by auto
    next
      case plain
      with True nr ae ct show ?thesis by (auto simp: get_header_caching)
    qed
  qed
  from allow rest show ?thesis by blast
qed

text \<open>C7 as amended: \<open>text/plain\<close> with \<open>Accept-Encoding: br, gzip\<close> is sent with brotli.\<close>

theorem compression_negotiation_witness:
  "serveContent demo_rt demo_config demo_entry (no_headers\<lparr> accept_encoding := Some ''br, gzip'' \<rparr>) =
     Inr \<lparr> status = 200,
           hdrs = [(''Content-Type'', ''text/plain''), (''Cache-Control'', ''public, max-age=31536000''),
                   (''X-Cache'', ''HIT''), (''ETag'', ''abc''), (''Last-Modified'', ''1000''),
                   (''Content-Encoding'', ''br''), (''Content-Length'', ''11''),
                   (''Vary'', ''Accept-Encoding'')],
           payload = Bytes (206 # demo_bytes) \<rparr>"
proof -
  let ?h = "no_headers\<lparr> accept_encoding := Some ''br, gzip'' \<rparr>"
  let ?r = "\<lparr> status = 200,
           hdrs = [(''Content-Type'', ''text/plain''), (''Cache-Control'', ''public, max-age=31536000''),
                   (''X-Cache'', ''HIT''), (''ETag'', ''abc''), (''Last-Modified'', ''1000''),
                   (''Content-Encoding'', ''br''), (''Content-Length'', ''11''),
                   (''Vary'', ''Accept-Encoding'')],
           payload = Bytes (206 # demo_bytes) \<rparr>"
  have sc: "serveContent demo_rt demo_config demo_entry ?h = Inr ?r"
    by (simp add: serveContent_def caching_headers_def etag_matches_def not_modified_since_def
        serve_full_def isCompressibleType_def compressibleTypes_def starts_with_def
        reply_defs demo_entry_def demo_metadata_def no_headers_def demo_len demo_strings
        demo_rt_def demo_config_def Let_def)
  have full: "full_entity demo_rt demo_entry ?h"
    by (rule demo_full)
  have comp: "isCompressibleType (contentType (metadata demo_entry)) = Inr True"
    by (simp add: isCompressibleType_def compressibleTypes_def starts_with_def demo_entry_def
        demo_metadata_def)
  have br: "compression_brotli demo_config \<and> js_includes ''br, gzip'' ''br''"
    by (simp add: demo_config_def starts_with_def)
  have ae: "(case accept_encoding ?h of Some s \<Rightarrow> s | None \<Rightarrow> []) = ''br, gzip''"
    by simp
  have br': "js_includes (case accept_encoding ?h of Some s \<Rightarrow> s | None \<Rightarrow> []) ''br''"
    unfolding ae using br by blast
  from compression_negotiation [OF sc refl refl, THEN conjunct2]
  have "full_entity demo_rt demo_entry ?h \<and>
        isCompressibleType (contentType (metadata demo_entry)) = Inr True \<and>
        compression_brotli demo_config \<and>
        js_includes (case accept_encoding ?h of Some s \<Rightarrow> s | None \<Rightarrow> []) ''br'' \<longrightarrow>
        get_header ?r ''Content-Encoding'' = Some ''br'' \<and>
        payload ?r = Bytes (brotliCompress demo_rt (content demo_entry))"
    by blast
  with full comp br br'
  have "get_header ?r ''Content-Encoding'' = Some ''br'' \<and>
        payload ?r = Bytes (brotliCompress demo_rt (content demo_entry))"
    by blast
  with sc show ?thesis by simp
qed

text \<open>
  C7 as stated fails: with brotli switched off in the configuration, a request whose
  Accept-Encoding allows both brotli and gzip is answered with gzip.
\<close>

theorem brotli_disabled_counterexample:
  "js_includes ''br, gzip'' ''br'' \<and> js_includes ''br, gzip'' ''gzip'' \<and>
   serveContent demo_rt (demo_config\<lparr> compression_brotli := False \<rparr>) demo_entry
       (no_headers\<lparr> accept_encoding := Some ''br, gzip'' \<rparr>) =
     Inr \<lparr> status = 200,
           hdrs = [(''Content-Type'', ''text/plain''), (''Cache-Control'', ''public, max-age=31536000''),
                   (''X-Cache'', ''HIT''), (''ETag'', ''abc''), (''Last-Modified'', ''1000''),
                   (''Content-Encoding'', ''gzip''), (''Content-Length'', ''11''),
                   (''Vary'', ''Accept-Encoding'')],
           payload = Bytes (31 # demo_bytes) \<rparr>"
  by (simp add: serveContent_def caching_headers_def etag_matches_def not_modified_since_def
      serve_full_def isCompressibleType_def compressibleTypes_def starts_with_def
      reply_defs demo_entry_def demo_metadata_def no_headers_def demo_len demo_strings
      demo_rt_def demo_config_def Let_def)

section \<open>C8, C9: cache misses\<close>

text \<open>
  C8. The store is empty, so the request for \<open>f1\<close> is a miss and the entry is fetched
  from the origin; the reply assembled from it nevertheless carries X-Cache: HIT.
\<close>

theorem miss_reply_says_hit:
  "fst (getFromCache (initCache demo_config None) (generateCacheKey ''f1'' 1) 0) = None \<and>
   fst (cdn_route demo_rt demo_config 0 0 (initCache demo_config None) demo_request) =
     Inr \<lparr> status = 200,
           hdrs = [(''Content-Type'', ''text/plain''), (''Cache-Control'', ''public, max-age=31536000''),
                   (''X-Cache'', ''HIT''), (''ETag'', ''abc''), (''Last-Modified'', ''1000''),
                   (''Content-Length'', ''10'')],
           payload = Bytes [1, 2, 3, 4, 5, 6, 7, 8, 9, 10] \<rparr>"
proof -
  have "fst (getFromCache (initCache demo_config None) (generateCacheKey ''f1'' 1) 0) = None"
    by (simp add: demo_init getFromCache_def lru_get_def)
  moreover have "fst (cdn_route demo_rt demo_config 0 0 (initCache demo_config None) demo_request) =
      Inr demo_reply"
    by (simp add: demo_request_at)
  ultimately show ?thesis by (simp add: demo_reply_def demo_bytes_def)
qed



section \<open>C10: when the signature is checked\<close>

text \<open>
  C10. When \<open>expires\<close> or \<open>signature\<close> is missing or empty, the request is not
  rejected and the route answers exactly as for the same request without either
  parameter, whatever the HMAC function and the clock are: no verification takes place.
  When both are non-empty, the request is rejected, with 403, exactly when
  \<open>verifySignedUrl\<close> fails.
\<close>

theorem signature_check_needs_both:
  "((\<not> truthy (q_expires rq) \<or> \<not> truthy (q_signature rq)) \<longrightarrow>
      \<not> signature_rejected rt cfg now rq \<and>
      cdn_route rt cfg now tick mc rq =
        cdn_route (rt\<lparr> hmac_sha256_hex := f \<rparr>) cfg now' tick mc
          (rq\<lparr> q_expires := None, q_signature := None \<rparr>)) \<and>
   (q_expires rq = Some e \<and> e \<noteq> [] \<and> q_signature rq = Some s \<and> s \<noteq> [] \<longrightarrow>
      (signature_rejected rt cfg now rq \<longleftrightarrow>
         \<not> verifySignedUrl (hmac_sha256_hex rt) cfg now (file_id rq) (parseInt e) s) \<and>
      (signature_rejected rt cfg now rq \<longrightarrow>
         cdn_route rt cfg now tick mc rq =
           (Inr \<lparr> status = 403, hdrs = [], payload = JsonError ''Invalid or expired signature'' \<rparr>, mc)))"
proof -
  have a: "\<not> signature_rejected rt cfg now rq"
    if "\<not> truthy (q_expires rq) \<or> \<not> truthy (q_signature rq)"
    using that by (cases "q_expires rq"; cases "q_signature rq") (auto simp: signature_rejected_def)
  have b: "signature_rejected rt cfg now rq \<longleftrightarrow>
         \<not> verifySignedUrl (hmac_sha256_hex rt) cfg now (file_id rq) (parseInt e) s"
    if "q_expires rq = Some e \<and> e \<noteq> [] \<and> q_signature rq = Some s \<and> s \<noteq> []"
    using that by (simp add: signature_rejected_def)
  have c: "cdn_route rt cfg now tick mc rq =
           (Inr \<lparr> status = 403, hdrs = [], payload = JsonError ''Invalid or expired signature'' \<rparr>, mc)"
    if "signature_rejected rt cfg now rq"
    using that by (simp add: cdn_route_def reply_defs)
  from a b c cdn_route_public show ?thesis by blast
qed

text \<open>
  C10 with only \<open>expires\<close>, only \<open>signature\<close>, an empty \<open>expires\<close>, and both with a
  wrong signature.
\<close>

theorem signature_check_needs_both_witness:
  "cdn_route demo_rt demo_config 100 0 (initCache demo_config None)
       (demo_request\<lparr> q_expires := Some ''160'' \<rparr>) = (Inr demo_reply, demo_store 0) \<and>
   cdn_route demo_rt demo_config 100 0 (initCache demo_config None)
       (demo_request\<lparr> q_signature := Some ''bogus'' \<rparr>) = (Inr demo_reply, demo_store 0) \<and>
   cdn_route demo_rt demo_config 100 0 (initCache demo_config None)
       (demo_request\<lparr> q_expires := Some [], q_signature := Some ''bogus'' \<rparr>) =
     (Inr demo_reply, demo_store 0) \<and>
   cdn_route demo_rt demo_config 100 0 (initCache demo_config None)
       (demo_request\<lparr> q_expires := Some ''160'', q_signature := Some ''bogus'' \<rparr>) =
     (Inr \<lparr> status = 403, hdrs = [], payload = JsonError ''Invalid or expired signature'' \<rparr>,
      initCache demo_config None)"
proof -
  let ?mc = "initCache demo_config None"
  let ?r1 = "demo_request\<lparr> q_expires := Some ''160'' \<rparr>"
  let ?r2 = "demo_request\<lparr> q_signature := Some ''bogus'' \<rparr>"
  let ?r3 = "demo_request\<lparr> q_expires := Some [], q_signature := Some ''bogus'' \<rparr>"
  let ?r4 = "demo_request\<lparr> q_expires := Some ''160'', q_signature := Some ''bogus'' \<rparr>"
  have same: "demo_rt\<lparr> hmac_sha256_hex := hmac_sha256_hex demo_rt \<rparr> = demo_rt" by simp
  have pub: "?r1\<lparr> q_expires := None, q_signature := None \<rparr> = demo_request"
    "?r2\<lparr> q_expires := None, q_signature := None \<rparr> = demo_request"
    "?r3\<lparr> q_expires := None, q_signature := None \<rparr> = demo_request"
    by (simp_all add: demo_request_def)
  have one: "\<not> truthy (q_expires ?r1) \<or> \<not> truthy (q_signature ?r1)"
    "\<not> truthy (q_expires ?r2) \<or> \<not> truthy (q_signature ?r2)"
    "\<not> truthy (q_expires ?r3) \<or> \<not> truthy (q_signature ?r3)"
    by (simp_all add: demo_request_def)
  have p1: "cdn_route demo_rt demo_config 100 0 ?mc ?r1 = cdn_route demo_rt demo_config 0 0 ?mc demo_request"
    using signature_check_needs_both [of ?r1 demo_rt demo_config 100 0 ?mc "hmac_sha256_hex demo_rt" 0,
        THEN conjunct1, THEN mp, OF one(1), THEN conjunct2]
    unfolding same pub .
  have p2: "cdn_route demo_rt demo_config 100 0 ?mc ?r2 = cdn_route demo_rt demo_config 0 0 ?mc demo_request"
    using signature_check_needs_both [of ?r2 demo_rt demo_config 100 0 ?mc "hmac_sha256_hex demo_rt" 0,
        THEN conjunct1, THEN mp, OF one(2), THEN conjunct2]
    unfolding same pub .
  have p3: "cdn_route demo_rt demo_config 100 0 ?mc ?r3 = cdn_route demo_rt demo_config 0 0 ?mc demo_request"
    using signature_check_needs_both [of ?r3 demo_rt demo_config 100 0 ?mc "hmac_sha256_hex demo_rt" 0,
        THEN conjunct1, THEN mp, OF one(3), THEN conjunct2]
    unfolding same pub .
  have both: "q_expires ?r4 = Some ''160'' \<and> ''160'' \<noteq> [] \<and> q_signature ?r4 = Some ''bogus'' \<and> ''bogus'' \<noteq> []"
    by (simp add: demo_request_def)
  have bad: "\<not> verifySignedUrl (hmac_sha256_hex demo_rt) demo_config 100 (file_id ?r4)
      (parseInt ''160'') ''bogus''"
    by (simp add: verifySignedUrl_def demo_parseInt demo_rt_def demo_hmac_def demo_config_def)
  note inst = signature_check_needs_both [where rq = ?r4 and e = "''160''" and s = "''bogus''"
        and rt = demo_rt and cfg = demo_config and now = 100 and tick = 0 and mc = ?mc,
        THEN conjunct2, THEN mp, OF both]
  from inst [THEN conjunct1] bad have rej: "signature_rejected demo_rt demo_config 100 ?r4" by blast
  have p4: "cdn_route demo_rt demo_config 100 0 ?mc ?r4 =
     (Inr \<lparr> status = 403, hdrs = [], payload = JsonError ''Invalid or expired signature'' \<rparr>, ?mc)"
    by (rule inst [THEN conjunct2, THEN mp, OF rej])
  from p1 p2 p3 p4 show ?thesis by (simp only: demo_request_at)
qed

end
